theory Spec2Isabelle
  imports Main
begin

section \<open>The connection monitor of mongomanager\<close>

text \<open>
  The development embeds the monitoring service (\<^verbatim>\<open>services/monitoringService.js\<close>),
  the WebSocket registration handlers of the server and the delete route of
  \<^verbatim>\<open>routes/connections.js\<close>. The MongoDB driver, the Mongoose registry and the clock
  are external: every call to them is answered by a script that says whether the call
  returns or throws, so that each \<^verbatim>\<open>await\<close> that may reject is a branch of the model.
  Handlers that run between two \<^verbatim>\<open>await\<close>s of a tick are not interleaved here.
\<close>

subsection \<open>Data\<close>

text \<open>The result of an external call: \<open>Inl msg\<close> is a thrown error with \<^verbatim>\<open>error.message = msg\<close>.\<close>

type_synonym 'a outcome = "string + 'a"

datatype conn_status = Disconnected | Connected | Error

text \<open>
  The document of \<^verbatim>\<open>models/Connection.js\<close>: the fields of \<^verbatim>\<open>connectionSchema\<close>, the
  \<^verbatim>\<open>_id\<close> every document has (\<open>ident\<close> is \<^verbatim>\<open>_id.toString()\<close>) and the two fields that
  the schema option \<^verbatim>\<open>timestamps: true\<close> adds, \<open>createdAt\<close> and \<open>updatedAt\<close>. Dates are
  milliseconds; \<open>status\<close> is the schema's enum.
\<close>

record ConnectionRecord =
  ident :: string
  name :: string
  host :: string
  port :: nat
  username :: string
  password :: string
  database :: string
  authSource :: string
  ssl :: bool
  replicaSet :: string
  isActive :: bool
  status :: conn_status
  lastConnected :: "int option"
  uptime :: int
  errorMessage :: string
  createdAt :: int
  updatedAt :: int

text \<open>The part of \<^verbatim>\<open>serverStatus\<close> that the monitor copies; a field the server omits is \<open>None\<close>.\<close>

type_synonym doc = "(string \<times> int) list"

record conn_counts =
  current :: "int option"
  available :: "int option"

record mem_info =
  resident :: "int option"
  virtual_mem :: "int option"

record serverStatus =
  ss_uptime :: int
  ss_connections :: "conn_counts option"
  mem :: "mem_info option"
  opcounters :: "doc option"
  ss_network :: "doc option"

text \<open>The \<^verbatim>\<open>metrics\<close> object of \<^verbatim>\<open>checkConnectionHealth\<close>; the timestamp is the clock reading.\<close>

record probe_metrics =
  timestamp :: int
  responseTime :: int
  connections :: "conn_counts option"
  memory :: "mem_info option"
  operations :: "doc option"
  network :: "doc option"
  m_uptime :: int

datatype alert_type = high_response_time | high_memory_usage | high_connection_count

record alert =
  a_type :: alert_type
  message :: string
  severity :: string
  a_connectionId :: string
  connectionName :: string

text \<open>\<^verbatim>\<open>this.metrics\<close> (a Map) and \<^verbatim>\<open>this.alerts\<close> (an array) of the service singleton.\<close>

record MonitoringService =
  metrics :: "string \<rightharpoonup> probe_metrics"
  alerts :: "alert list"

text \<open>
  The two messages sent to an observer:
  \<^verbatim>\<open>{type: 'metrics', connectionId, data}\<close> and \<^verbatim>\<open>{type: 'error', connectionId, error}\<close>.
\<close>

datatype event = MetricsEvent string probe_metrics | ErrorEvent string string

text \<open>
  The fan-out channel. Sockets are objects with identity, so they are handles (\<open>nat\<close>)
  into a store: \<open>activeConnections\<close> is the server's Map from connection id to socket,
  \<open>readyState\<close> and \<open>connectionId\<close> are the two properties of a socket the code uses.
\<close>

record channel =
  activeConnections :: "string \<rightharpoonup> nat"
  readyState :: "nat \<Rightarrow> nat"
  connectionId :: "nat \<rightharpoonup> string"

datatype driver_call = NewClient | Connect | Ping | ServerStatus | Close

text \<open>
  Everything a tick can change or emit: the persisted registry, the service singleton,
  the \<^verbatim>\<open>ws.send\<close> calls (socket, message), the \<^verbatim>\<open>console.error\<close> lines and
  the calls made on MongoDB clients (tagged with the id of the probed connection).
\<close>

record world =
  registry :: "ConnectionRecord list"
  service :: MonitoringService
  sent :: "(nat \<times> event) list"
  console :: "string list"
  driver :: "(string \<times> driver_call) list"

text \<open>
  What the outside answers during one health check: the five driver calls, the two
  \<^verbatim>\<open>connection.save()\<close> calls (line 46 in the try block, line 78 in the catch block)
  and the four clock readings (lines 31, 34, 43 and 50). \<open>on_construct\<close> answers lines 25
  to 29 together: \<^verbatim>\<open>buildConnectionUri\<close>, whose only use is the argument of the
  constructor, and \<^verbatim>\<open>new MongoClient\<close>. \<open>stamp_try\<close> and \<open>stamp_catch\<close> are the values
  of \<open>updatedAt\<close> that the timestamps hook of the schema leaves on the document when
  the first and the second \<^verbatim>\<open>save\<close> succeed: the time of the write when the document
  has been modified. The script of a connection is chosen by its id, so the answers may
  depend on everything the record holds.
\<close>

record probe_script =
  on_construct :: "unit outcome"
  on_connect :: "unit outcome"
  on_ping :: "unit outcome"
  on_serverStatus :: "serverStatus outcome"
  on_close :: "unit outcome"
  on_save_try :: "unit outcome"
  on_save_catch :: "unit outcome"
  stamp_try :: int
  stamp_catch :: int
  clock_start :: int
  clock_ping :: int
  clock_update :: int
  clock_metrics :: int

record tick_script =
  on_find :: "unit outcome"
  probe_of :: "string \<Rightarrow> probe_script"

subsection \<open>Rendering numbers in messages\<close>

fun show_nat :: "nat \<Rightarrow> string" where
  "show_nat n = (if n < 10 then [char_of (48 + n)]
                 else show_nat (n div 10) @ [char_of (48 + n mod 10)])"

declare show_nat.simps [simp del]

definition show_int :: "int \<Rightarrow> string" where
  "show_int i = (if i < 0 then CHR ''-'' # show_nat (nat (- i)) else show_nat (nat i))"

subsection \<open>The alert evaluator\<close>

text \<open>
  \<^verbatim>\<open>x && x.f > k\<close> on an optional object with an optional numeric field: an absent object
  is falsy, and \<^verbatim>\<open>undefined > k\<close> is false.
\<close>

definition exceeds :: "'a option \<Rightarrow> ('a \<Rightarrow> int option) \<Rightarrow> int \<Rightarrow> bool" where
  "exceeds obj field k =
     (case obj of None \<Rightarrow> False
      | Some x \<Rightarrow> (case field x of None \<Rightarrow> False | Some v \<Rightarrow> v > k))"

definition field_text :: "'a option \<Rightarrow> ('a \<Rightarrow> int option) \<Rightarrow> string" where
  "field_text obj field =
     (case obj of None \<Rightarrow> ''undefined''
      | Some x \<Rightarrow> (case field x of None \<Rightarrow> ''undefined'' | Some v \<Rightarrow> show_int v))"

text \<open>The local array \<^verbatim>\<open>alerts\<close> that \<^verbatim>\<open>checkAlerts\<close> builds (lines 95 to 128).\<close>

definition new_alerts :: "ConnectionRecord \<Rightarrow> probe_metrics \<Rightarrow> alert list" where
  "new_alerts c m =
     (if responseTime m > 1000
      then [\<lparr>a_type = high_response_time,
             message = ''High response time: '' @ show_int (responseTime m) @ ''ms'',
             severity = ''warning'', a_connectionId = ident c, connectionName = name c\<rparr>]
      else []) @
     (if exceeds (memory m) resident 1000
      then [\<lparr>a_type = high_memory_usage,
             message = ''High memory usage: '' @ field_text (memory m) resident @ ''MB'',
             severity = ''warning'', a_connectionId = ident c, connectionName = name c\<rparr>]
      else []) @
     (if exceeds (connections m) current 100
      then [\<lparr>a_type = high_connection_count,
             message = ''High connection count: '' @ field_text (connections m) current,
             severity = ''warning'', a_connectionId = ident c, connectionName = name c\<rparr>]
      else [])"

text \<open>\<^verbatim>\<open>xs.slice(-100)\<close>, applied when \<^verbatim>\<open>xs.length > 100\<close>.\<close>

definition keep_last :: "nat \<Rightarrow> 'a list \<Rightarrow> 'a list" where
  "keep_last n xs = (if length xs > n then drop (length xs - n) xs else xs)"

definition checkAlerts :: "MonitoringService \<Rightarrow> ConnectionRecord \<Rightarrow> probe_metrics \<Rightarrow> MonitoringService" where
  "checkAlerts svc c m = svc\<lparr>alerts := keep_last 100 (alerts svc @ new_alerts c m)\<rparr>"

subsection \<open>The metrics store\<close>

text \<open>
  \<^verbatim>\<open>this.metrics.set(id, metrics)\<close> (line 59) and the three reads \<^verbatim>\<open>getMetrics\<close>,
  \<^verbatim>\<open>getAllMetrics\<close> and \<^verbatim>\<open>getAlerts\<close>. The store has no other operation.
\<close>

definition storeMetrics :: "MonitoringService \<Rightarrow> string \<Rightarrow> probe_metrics \<Rightarrow> MonitoringService" where
  "storeMetrics svc cid m = svc\<lparr>metrics := (metrics svc)(cid \<mapsto> m)\<rparr>"

definition getMetrics :: "MonitoringService \<Rightarrow> string \<Rightarrow> probe_metrics option" where
  "getMetrics svc cid = metrics svc cid"

definition getAlerts :: "MonitoringService \<Rightarrow> alert list" where
  "getAlerts svc = alerts svc"



subsection \<open>The fan-out channel\<close>

text \<open>
  The publish step of lines 62 to 69 and 81 to 88: look the socket up under the
  connection id and send only if there is one and its \<^verbatim>\<open>readyState\<close> is 1 (open).
  The result is the list of \<^verbatim>\<open>ws.send\<close> calls made.
\<close>

definition publish :: "channel \<Rightarrow> string \<Rightarrow> event \<Rightarrow> (nat \<times> event) list" where
  "publish ch cid ev =
     (case activeConnections ch cid of
        None \<Rightarrow> []
      | Some ws \<Rightarrow> if readyState ch ws = 1 then [(ws, ev)] else [])"

text \<open>
  A message received on a socket: \<^verbatim>\<open>JSON.parse\<close> or the field access throws
  (\<open>Unparsable\<close>; the handler logs and goes on), or it yields \<^verbatim>\<open>type\<close> and
  \<^verbatim>\<open>connectionId\<close>.
\<close>

datatype ws_message = Unparsable | Parsed string string

definition on_message :: "channel \<Rightarrow> nat \<Rightarrow> ws_message \<Rightarrow> channel" where
  "on_message ch ws msg =
     (case msg of
        Unparsable \<Rightarrow> ch
      | Parsed ty cid \<Rightarrow>
          if ty = ''register''
          then ch\<lparr>activeConnections := (activeConnections ch)(cid \<mapsto> ws),
                  connectionId := (connectionId ch)(ws \<mapsto> cid)\<rparr>
          else ch)"

definition ws_on_close :: "channel \<Rightarrow> nat \<Rightarrow> channel" where
  "ws_on_close ch ws =
     (case connectionId ch ws of
        None \<Rightarrow> ch
      | Some cid \<Rightarrow>
          if cid = [] then ch
          else ch\<lparr>activeConnections := (activeConnections ch)(cid := None)\<rparr>)"

definition subscribe :: "channel \<Rightarrow> string \<Rightarrow> nat \<Rightarrow> channel" where
  "subscribe ch cid ws = on_message ch ws (Parsed ''register'' cid)"

subsection \<open>The health check of one connection\<close>

definition call :: "string \<Rightarrow> driver_call \<Rightarrow> world \<Rightarrow> world" where
  "call cid d w = w\<lparr>driver := driver w @ [(cid, d)]\<rparr>"

text \<open>
  A successful \<^verbatim>\<open>connection.save()\<close> stamps \<open>updatedAt\<close> (in \<open>on_success\<close> and
  \<open>catch_block\<close> below) and writes the in-memory document over the stored one.
\<close>

definition save :: "ConnectionRecord \<Rightarrow> ConnectionRecord list \<Rightarrow> ConnectionRecord list" where
  "save c reg = map (\<lambda>r. if ident r = ident c then c else r) reg"

definition make_metrics :: "probe_script \<Rightarrow> serverStatus \<Rightarrow> probe_metrics" where
  "make_metrics sc ss =
     \<lparr>timestamp = clock_metrics sc,
      responseTime = clock_ping sc - clock_start sc,
      connections = ss_connections ss,
      memory = mem ss,
      operations = opcounters ss,
      network = ss_network ss,
      m_uptime = ss_uptime ss\<rparr>"

text \<open>
  Lines 41 to 72, reached when the five driver calls have returned. The result is
  whether the block threw, the in-memory document and the world.
\<close>

definition on_success ::
  "probe_script \<Rightarrow> channel \<Rightarrow> serverStatus \<Rightarrow> ConnectionRecord \<Rightarrow> world
   \<Rightarrow> unit outcome \<times> ConnectionRecord \<times> world" where
  "on_success sc ch ss c w =
     (let c' = c\<lparr>status := Connected, lastConnected := Some (clock_update sc),
                 errorMessage := [], uptime := ss_uptime ss\<rparr>
      in case on_save_try sc of
           Inl e \<Rightarrow> (Inl e, c', w)
         | Inr _ \<Rightarrow>
             let c2 = c'\<lparr>updatedAt := stamp_try sc\<rparr>;
                 w1 = w\<lparr>registry := save c2 (registry w)\<rparr>;
                 m = make_metrics sc ss;
                 w2 = w1\<lparr>service := storeMetrics (service w1) (ident c2) m\<rparr>;
                 w3 = w2\<lparr>sent := sent w2 @ publish ch (ident c2) (MetricsEvent (ident c2) m)\<rparr>;
                 w4 = w3\<lparr>service := checkAlerts (service w3) c2 m\<rparr>
             in (Inr (), c2, w4))"

text \<open>The try block, lines 25 to 72: the first call that throws ends it.\<close>

definition try_block ::
  "probe_script \<Rightarrow> channel \<Rightarrow> ConnectionRecord \<Rightarrow> world
   \<Rightarrow> unit outcome \<times> ConnectionRecord \<times> world" where
  "try_block sc ch c w =
     (let w1 = call (ident c) NewClient w in
      (case on_construct sc of
         Inl e \<Rightarrow> (Inl e, c, w1)
       | Inr _ \<Rightarrow>
      (let w2 = call (ident c) Connect w1 in
      (case on_connect sc of
         Inl e \<Rightarrow> (Inl e, c, w2)
       | Inr _ \<Rightarrow>
      (let w3 = call (ident c) Ping w2 in
      (case on_ping sc of
         Inl e \<Rightarrow> (Inl e, c, w3)
       | Inr _ \<Rightarrow>
      (let w4 = call (ident c) ServerStatus w3 in
      (case on_serverStatus sc of
         Inl e \<Rightarrow> (Inl e, c, w4)
       | Inr ss \<Rightarrow>
      (let w5 = call (ident c) Close w4 in
      (case on_close sc of
         Inl e \<Rightarrow> (Inl e, c, w5)
       | Inr _ \<Rightarrow> on_success sc ch ss c w5))))))))))"

text \<open>The catch block, lines 75 to 90; its own \<^verbatim>\<open>save\<close> is not guarded.\<close>

definition catch_block ::
  "probe_script \<Rightarrow> channel \<Rightarrow> string \<Rightarrow> ConnectionRecord \<Rightarrow> world
   \<Rightarrow> unit outcome \<times> ConnectionRecord \<times> world" where
  "catch_block sc ch e c w =
     (let c' = c\<lparr>status := Error, errorMessage := e\<rparr>
      in case on_save_catch sc of
           Inl e2 \<Rightarrow> (Inl e2, c', w)
         | Inr _ \<Rightarrow>
             let c2 = c'\<lparr>updatedAt := stamp_catch sc\<rparr>;
                 w1 = w\<lparr>registry := save c2 (registry w)\<rparr>;
                 w2 = w1\<lparr>sent := sent w1 @ publish ch (ident c2) (ErrorEvent (ident c2) e)\<rparr>;
                 w3 = w2\<lparr>console := console w2 @
                        [''Connection '' @ name c2 @ '' health check failed: '' @ e]\<rparr>
             in (Inr (), c2, w3))"

definition checkConnectionHealth ::
  "probe_script \<Rightarrow> channel \<Rightarrow> ConnectionRecord \<Rightarrow> world
   \<Rightarrow> unit outcome \<times> ConnectionRecord \<times> world" where
  "checkConnectionHealth sc ch c w =
     (case try_block sc ch c w of
        (Inl e, c', w') \<Rightarrow> catch_block sc ch e c' w'
      | (Inr u, c', w') \<Rightarrow> (Inr u, c', w'))"

subsection \<open>The tick\<close>

text \<open>The \<^verbatim>\<open>for\<close> loop of \<^verbatim>\<open>checkAllConnections\<close>: a health check that throws ends the loop.\<close>

fun for_connections ::
  "(string \<Rightarrow> probe_script) \<Rightarrow> channel \<Rightarrow> ConnectionRecord list \<Rightarrow> world
   \<Rightarrow> unit outcome \<times> world" where
  "for_connections env ch [] w = (Inr (), w)"
| "for_connections env ch (c # cs) w =
     (case checkConnectionHealth (env (ident c)) ch c w of
        (Inl e, _, w') \<Rightarrow> (Inl e, w')
      | (Inr _, _, w') \<Rightarrow> for_connections env ch cs w')"

text \<open>
  \<^verbatim>\<open>Connection.find({ isActive: true })\<close>, the loop, and the catch that logs whatever
  either of them throws.
\<close>

definition checkAllConnections :: "tick_script \<Rightarrow> channel \<Rightarrow> world \<Rightarrow> unit outcome \<times> world" where
  "checkAllConnections ts ch w =
     (case (case on_find ts of
              Inl e \<Rightarrow> (Inl e, w)
            | Inr _ \<Rightarrow> for_connections (probe_of ts) ch (filter isActive (registry w)) w) of
        (Inl e, w') \<Rightarrow>
          (Inr (), w'\<lparr>console := console w' @ [''Error checking connections: '' @ e]\<rparr>)
      | (Inr u, w') \<Rightarrow> (Inr u, w'))"

text \<open>The connections on which a tick has started a probe, in order.\<close>

definition probed :: "world \<Rightarrow> string list" where
  "probed w = map fst (filter (\<lambda>p. snd p = NewClient) (driver w))"

subsection \<open>The delete route\<close>

text \<open>
  \<^verbatim>\<open>router.delete('/:id')\<close>: \<^verbatim>\<open>findByIdAndDelete\<close> throws, finds nothing, or removes the
  document. The route can reach the service singleton and the channel
  (\<^verbatim>\<open>app.locals.activeConnections\<close>), so both are part of the state it is given.
\<close>

record app_state =
  app_world :: world
  app_channel :: channel

definition delete_route :: "unit outcome \<Rightarrow> string \<Rightarrow> app_state \<Rightarrow> (nat \<times> string) \<times> app_state" where
  "delete_route on_delete cid s =
     (case on_delete of
        Inl e \<Rightarrow> ((500, e), s)
      | Inr _ \<Rightarrow>
          (case find (\<lambda>c. ident c = cid) (registry (app_world s)) of
             None \<Rightarrow> ((404, ''Connection not found''), s)
           | Some c \<Rightarrow>
               ((200, ''Connection deleted successfully''),
                s\<lparr>app_world := (app_world s)
                     \<lparr>registry := filter (\<lambda>r. ident r \<noteq> cid) (registry (app_world s))\<rparr>\<rparr>)))"

subsection \<open>The outcome of the probe\<close>

text \<open>
  What lines 25 to 39 amount to for the scheduler: the first of the five driver calls
  that throws is the failure of the probe; if none does, the probe yields the server
  status.
\<close>

definition probe :: "probe_script \<Rightarrow> serverStatus outcome" where
  "probe sc =
     (case on_construct sc of Inl e \<Rightarrow> Inl e | Inr _ \<Rightarrow>
     (case on_connect sc of Inl e \<Rightarrow> Inl e | Inr _ \<Rightarrow>
     (case on_ping sc of Inl e \<Rightarrow> Inl e | Inr _ \<Rightarrow>
     (case on_serverStatus sc of Inl e \<Rightarrow> Inl e | Inr ss \<Rightarrow>
     (case on_close sc of Inl e \<Rightarrow> Inl e | Inr _ \<Rightarrow> Inr ss)))))"

text \<open>The driver calls a health check has added to the trace of the world it started in.\<close>

definition calls_since :: "world \<Rightarrow> world \<Rightarrow> (string \<times> driver_call) list" where
  "calls_since w w' = drop (length (driver w)) (driver w')"

definition probed_since :: "world \<Rightarrow> world \<Rightarrow> string list" where
  "probed_since w w' = drop (length (probed w)) (probed w')"

subsection \<open>Concrete connections, scripts and worlds\<close>

definition conn_a :: ConnectionRecord where
  "conn_a = \<lparr>ident = ''a'', name = ''alpha'', host = ''db1.local'', port = 27017,
     username = [], password = [], database = ''admin'', authSource = ''admin'',
     ssl = False, replicaSet = [], isActive = True, status = Disconnected,
     lastConnected = Some 1000, uptime = 0, errorMessage = [], createdAt = 1000,
     updatedAt = 1000\<rparr>"

definition conn_b :: ConnectionRecord where
  "conn_b = conn_a\<lparr>ident := ''b'', name := ''beta'', host := ''db2.local''\<rparr>"

definition conn_c :: ConnectionRecord where
  "conn_c = conn_a\<lparr>ident := ''c'', name := ''gamma'', host := ''db3.local'', isActive := False\<rparr>"

definition status_busy :: serverStatus where
  "status_busy = \<lparr>ss_uptime = 4242,
     ss_connections = Some \<lparr>current = Some 150, available = Some 800\<rparr>,
     mem = Some \<lparr>resident = Some 500, virtual_mem = Some 2048\<rparr>,
     opcounters = Some [(''insert'', 3), (''query'', 9)],
     ss_network = None\<rparr>"

definition script_ok :: probe_script where
  "script_ok = \<lparr>on_construct = Inr (), on_connect = Inr (), on_ping = Inr (),
     on_serverStatus = Inr status_busy, on_close = Inr (), on_save_try = Inr (),
     on_save_catch = Inr (), stamp_try = 6010, stamp_catch = 6020, clock_start = 5000,
     clock_ping = 6001, clock_update = 6010, clock_metrics = 6011\<rparr>"

definition script_refused :: probe_script where
  "script_refused = script_ok\<lparr>on_connect := Inl ''connect ECONNREFUSED''\<rparr>"

definition script_unsaved :: probe_script where
  "script_unsaved = script_ok\<lparr>on_save_try := Inl ''registry write failed''\<rparr>"

definition script_refused_unsaved :: probe_script where
  "script_refused_unsaved = script_refused\<lparr>on_save_catch := Inl ''registry write failed''\<rparr>"

definition chan_a :: channel where
  "chan_a = \<lparr>activeConnections = [''a'' \<mapsto> 7],
     readyState = (\<lambda>ws. if ws = 7 then 1 else 3),
     connectionId = [7 \<mapsto> ''a'']\<rparr>"

definition chan_open :: channel where
  "chan_open = \<lparr>activeConnections = Map.empty, readyState = (\<lambda>ws. 1),
     connectionId = Map.empty\<rparr>"

definition chan_empty :: channel where
  "chan_empty = \<lparr>activeConnections = Map.empty, readyState = (\<lambda>ws. 3),
     connectionId = Map.empty\<rparr>"

definition world0 :: world where
  "world0 = \<lparr>registry = [conn_a, conn_b, conn_c],
     service = \<lparr>metrics = Map.empty, alerts = []\<rparr>,
     sent = [], console = [], driver = []\<rparr>"

definition tick_ok :: tick_script where
  "tick_ok = \<lparr>on_find = Inr (), probe_of = (\<lambda>cid. script_ok)\<rparr>"

definition tick_no_registry :: tick_script where
  "tick_no_registry = \<lparr>on_find = Inl ''registry unreachable'', probe_of = (\<lambda>cid. script_ok)\<rparr>"

definition tick_first_unsaved :: tick_script where
  "tick_first_unsaved = \<lparr>on_find = Inr (),
     probe_of = (\<lambda>cid. if cid = ''a'' then script_refused_unsaved else script_ok)\<rparr>"

definition metrics_slow :: probe_metrics where
  "metrics_slow = \<lparr>timestamp = 6011, responseTime = 1001,
     connections = Some \<lparr>current = Some 50, available = None\<rparr>,
     memory = None, operations = None, network = None, m_uptime = 4242\<rparr>"

definition metrics_edge :: probe_metrics where
  "metrics_edge = metrics_slow\<lparr>responseTime := 1000\<rparr>"

definition metrics_all :: probe_metrics where
  "metrics_all = metrics_slow\<lparr>responseTime := 1500,
     connections := Some \<lparr>current = Some 101, available = None\<rparr>,
     memory := Some \<lparr>resident = Some 1001, virtual_mem = None\<rparr>\<rparr>"



definition app0 :: app_state where
  "app0 = \<lparr>app_world = world0\<lparr>service := storeMetrics (service world0) ''a'' metrics_slow\<rparr>,
     app_channel = chan_a\<rparr>"

section \<open>Properties\<close>

subsection \<open>The alert evaluator\<close>

lemma exceeds_iff:
  "exceeds obj field k = (\<exists>x v. obj = Some x \<and> field x = Some v \<and> v > k)"
  by (auto simp: exceeds_def split: option.splits)

lemma length_new_alerts: "length (new_alerts c m) \<le> 3"
  by (simp add: new_alerts_def)

lemma keep_last_append:
  "length ys \<le> n \<Longrightarrow> \<exists>k. keep_last n (xs @ ys) = drop k xs @ ys"
proof (cases "length (xs @ ys) > n")
  case True
  assume "length ys \<le> n"
  with True have "keep_last n (xs @ ys) = drop (length xs + length ys - n) xs @ ys"
    by (simp add: keep_last_def)
  then show ?thesis by blast
next
  case False
  then have "keep_last n (xs @ ys) = drop 0 xs @ ys"
    by (simp add: keep_last_def)
  then show ?thesis by blast
qed



text \<open>
  Claim C3. For every connection and metrics, the alerts that \<^verbatim>\<open>checkAlerts\<close> builds are,
  in this order and each decided on its own: \<open>high_response_time\<close> exactly when
  \<open>responseTime > 1000\<close>, \<open>high_memory_usage\<close> exactly when the memory figure is present
  with \<open>resident > 1000\<close>, \<open>high_connection_count\<close> exactly when the connections figure
  is present with \<open>current > 100\<close>. An absent figure yields no alert and no error
  (the function is total). Every alert carries the id and the name of the connection,
  and all of them are appended to the alert buffer.
\<close>

theorem alert_rules:
  "map a_type (new_alerts c m) =
     (if responseTime m > 1000 then [high_response_time] else []) @
     (if (\<exists>x v. memory m = Some x \<and> resident x = Some v \<and> v > 1000)
      then [high_memory_usage] else []) @
     (if (\<exists>x v. connections m = Some x \<and> current x = Some v \<and> v > 100)
      then [high_connection_count] else [])
   \<and> (\<forall>a \<in> set (new_alerts c m).
         a_connectionId a = ident c \<and> connectionName a = name c \<and> severity a = ''warning'')
   \<and> (\<exists>k. getAlerts (checkAlerts svc c m) = drop k (getAlerts svc) @ new_alerts c m)"
proof (intro conjI)
  show "map a_type (new_alerts c m) =
     (if responseTime m > 1000 then [high_response_time] else []) @
     (if (\<exists>x v. memory m = Some x \<and> resident x = Some v \<and> v > 1000)
      then [high_memory_usage] else []) @
     (if (\<exists>x v. connections m = Some x \<and> current x = Some v \<and> v > 100)
      then [high_connection_count] else [])"
    by (simp add: new_alerts_def exceeds_iff)
  show "\<forall>a \<in> set (new_alerts c m).
         a_connectionId a = ident c \<and> connectionName a = name c \<and> severity a = ''warning''"
    by (auto simp: new_alerts_def split: if_splits)
  show "\<exists>k. getAlerts (checkAlerts svc c m) = drop k (getAlerts svc) @ new_alerts c m"
  proof -
    have "length (new_alerts c m) \<le> 100"
      using length_new_alerts [of c m] by simp
    from keep_last_append [OF this, of "alerts svc"] show ?thesis
      by (simp add: checkAlerts_def getAlerts_def)
  qed
qed

text \<open>
  At a response time of exactly 1000 nothing fires, at 1001 the response-time alert
  fires alone (the memory figure is absent there), and with all three figures over
  their thresholds the three alerts fire together.
\<close>

theorem alert_rules_witness:
  "map a_type (new_alerts conn_a metrics_edge) = []
   \<and> map a_type (new_alerts conn_a metrics_slow) = [high_response_time]
   \<and> map a_type (new_alerts conn_a metrics_all)
       = [high_response_time, high_memory_usage, high_connection_count]
   \<and> map a_connectionId (new_alerts conn_a metrics_all) = [''a'', ''a'', ''a'']"
  using alert_rules [of conn_a metrics_edge] alert_rules [of conn_a metrics_slow]
    alert_rules [of conn_a metrics_all]
  by (simp add: metrics_edge_def metrics_slow_def metrics_all_def conn_a_def new_alerts_def
      exceeds_def)

subsection \<open>The metrics store\<close>








subsection \<open>The health check\<close>

lemma try_block_failure:
  "probe sc = Inl e \<Longrightarrow>
     \<exists>w'. try_block sc ch c w = (Inl e, c, w') \<and> registry w' = registry w
          \<and> service w' = service w \<and> sent w' = sent w \<and> console w' = console w"
  by (auto simp: probe_def try_block_def call_def Let_def split: sum.splits)

lemma try_block_success:
  "probe sc = Inr ss \<Longrightarrow>
     try_block sc ch c w =
       on_success sc ch ss c
         (w\<lparr>driver := driver w @ map (Pair (ident c)) [NewClient, Connect, Ping, ServerStatus, Close]\<rparr>)"
  by (auto simp: probe_def try_block_def call_def Let_def split: sum.splits)

lemma driver_on_success: "driver (snd (snd (on_success sc ch ss c w))) = driver w"
  by (simp add: on_success_def Let_def storeMetrics_def checkAlerts_def split: sum.splits)

lemma driver_catch_block: "driver (snd (snd (catch_block sc ch e c w))) = driver w"
  by (simp add: catch_block_def Let_def split: sum.splits)

lemma driver_try_block:
  "driver (snd (snd (try_block sc ch c w))) =
     driver w @ (ident c, NewClient) #
       (case on_construct sc of Inl _ \<Rightarrow> [] | Inr _ \<Rightarrow> (ident c, Connect) #
       (case on_connect sc of Inl _ \<Rightarrow> [] | Inr _ \<Rightarrow> (ident c, Ping) #
       (case on_ping sc of Inl _ \<Rightarrow> [] | Inr _ \<Rightarrow> (ident c, ServerStatus) #
       (case on_serverStatus sc of Inl _ \<Rightarrow> [] | Inr _ \<Rightarrow> [(ident c, Close)]))))"
  by (simp add: try_block_def call_def Let_def driver_on_success split: sum.splits)

lemma driver_check:
  "driver (snd (snd (checkConnectionHealth sc ch c w))) = driver (snd (snd (try_block sc ch c w)))"
  by (simp add: checkConnectionHealth_def driver_catch_block split: prod.splits sum.splits)

lemma probed_check:
  "probed (snd (snd (checkConnectionHealth sc ch c w))) = probed w @ [ident c]"
  by (simp add: probed_def driver_check driver_try_block split: sum.splits)

lemmas example_defs = conn_a_def conn_b_def conn_c_def status_busy_def script_ok_def
  script_refused_def script_unsaved_def script_refused_unsaved_def chan_a_def chan_empty_def
  world0_def tick_ok_def tick_no_registry_def tick_first_unsaved_def

lemmas health_defs = checkConnectionHealth_def try_block_def catch_block_def on_success_def
  call_def save_def make_metrics_def storeMetrics_def checkAlerts_def publish_def
  getMetrics_def keep_last_def new_alerts_def exceeds_def field_text_def

lemma on_success_saved:
  assumes "on_save_try sc = Inr ()"
  shows "\<exists>w'. on_success sc ch ss c w =
           (Inr (), c\<lparr>status := Connected, lastConnected := Some (clock_update sc),
                      errorMessage := [], uptime := ss_uptime ss,
                      updatedAt := stamp_try sc\<rparr>, w')
         \<and> registry w' = save (c\<lparr>status := Connected, lastConnected := Some (clock_update sc),
                      errorMessage := [], uptime := ss_uptime ss,
                      updatedAt := stamp_try sc\<rparr>) (registry w)
         \<and> getMetrics (service w') (ident c) = Some (make_metrics sc ss)
         \<and> getAlerts (service w') = keep_last 100 (getAlerts (service w) @
              new_alerts (c\<lparr>status := Connected, lastConnected := Some (clock_update sc),
                      errorMessage := [], uptime := ss_uptime ss,
                      updatedAt := stamp_try sc\<rparr>) (make_metrics sc ss))
         \<and> sent w' = sent w @ publish ch (ident c) (MetricsEvent (ident c) (make_metrics sc ss))
         \<and> console w' = console w \<and> driver w' = driver w"
  using assms
  by (simp add: on_success_def Let_def storeMetrics_def checkAlerts_def getMetrics_def getAlerts_def)

lemma check_success_record:
  assumes "probe sc = Inr ss" and "on_save_try sc = Inr ()"
  shows "fst (snd (checkConnectionHealth sc ch c w)) =
           c\<lparr>status := Connected, lastConnected := Some (clock_update sc),
             errorMessage := [], uptime := ss_uptime ss, updatedAt := stamp_try sc\<rparr>"
  using assms(2)
  by (simp add: checkConnectionHealth_def try_block_success [OF assms(1)] on_success_def Let_def)

text \<open>
  Claim C1 (corrected). When the probe of a connection succeeds and the registry write
  of the try block succeeds, the health check returns normally with the document set to
  \<open>status = Connected\<close>, \<open>lastConnected\<close> the clock reading, \<open>errorMessage\<close> empty and
  \<open>uptime\<close> the reported uptime (and \<open>updatedAt\<close> stamped by the write); that document
  is written to the registry; the metrics are
  stored under the connection's id; and the check performs one publish of the metrics
  event under that id, which sends exactly one message to the socket registered under
  the id when that socket is open, and none when there is no such socket. Nothing is
  logged.
\<close>

theorem successful_probe:
  assumes "probe sc = Inr ss" and "on_save_try sc = Inr ()"
  shows "\<exists>w'. checkConnectionHealth sc ch c w =
           (Inr (), c\<lparr>status := Connected, lastConnected := Some (clock_update sc),
                      errorMessage := [], uptime := ss_uptime ss,
                      updatedAt := stamp_try sc\<rparr>, w')
         \<and> registry w' = save (c\<lparr>status := Connected, lastConnected := Some (clock_update sc),
                      errorMessage := [], uptime := ss_uptime ss,
                      updatedAt := stamp_try sc\<rparr>) (registry w)
         \<and> getMetrics (service w') (ident c) = Some (make_metrics sc ss)
         \<and> sent w' = sent w @ publish ch (ident c) (MetricsEvent (ident c) (make_metrics sc ss))
         \<and> (\<forall>ws. activeConnections ch (ident c) = Some ws \<and> readyState ch ws = 1 \<longrightarrow>
               sent w' = sent w @ [(ws, MetricsEvent (ident c) (make_metrics sc ss))])
         \<and> ((\<forall>ws. activeConnections ch (ident c) = Some ws \<longrightarrow> readyState ch ws \<noteq> 1) \<longrightarrow>
               sent w' = sent w)
         \<and> console w' = console w"
proof -
  let ?w = "w\<lparr>driver := driver w @ map (Pair (ident c)) [NewClient, Connect, Ping, ServerStatus, Close]\<rparr>"
  from on_success_saved [OF assms(2), of ch ss c ?w]
  obtain w' where w': "on_success sc ch ss c ?w =
           (Inr (), c\<lparr>status := Connected, lastConnected := Some (clock_update sc),
                      errorMessage := [], uptime := ss_uptime ss,
                      updatedAt := stamp_try sc\<rparr>, w')"
      and reg: "registry w' = save (c\<lparr>status := Connected, lastConnected := Some (clock_update sc),
                      errorMessage := [], uptime := ss_uptime ss,
                      updatedAt := stamp_try sc\<rparr>) (registry w)"
      and met: "getMetrics (service w') (ident c) = Some (make_metrics sc ss)"
      and snt: "sent w' = sent w @ publish ch (ident c) (MetricsEvent (ident c) (make_metrics sc ss))"
      and con: "console w' = console w"
    by auto
  have run: "checkConnectionHealth sc ch c w =
           (Inr (), c\<lparr>status := Connected, lastConnected := Some (clock_update sc),
                      errorMessage := [], uptime := ss_uptime ss,
                      updatedAt := stamp_try sc\<rparr>, w')"
    using w' by (simp add: checkConnectionHealth_def try_block_success [OF assms(1)])
  have open_ws: "\<forall>ws. activeConnections ch (ident c) = Some ws \<and> readyState ch ws = 1 \<longrightarrow>
               sent w' = sent w @ [(ws, MetricsEvent (ident c) (make_metrics sc ss))]"
    by (simp add: snt publish_def)
  have no_ws: "(\<forall>ws. activeConnections ch (ident c) = Some ws \<longrightarrow> readyState ch ws \<noteq> 1) \<longrightarrow>
               sent w' = sent w"
    by (auto simp: snt publish_def split: option.splits)
  from run reg met snt open_ws no_ws con show ?thesis by blast
qed

theorem successful_probe_witness:
  "probe script_ok = Inr status_busy \<and> on_save_try script_ok = Inr ()
   \<and> fst (checkConnectionHealth script_ok chan_a conn_a world0) = Inr ()
   \<and> status (fst (snd (checkConnectionHealth script_ok chan_a conn_a world0))) = Connected
   \<and> errorMessage (fst (snd (checkConnectionHealth script_ok chan_a conn_a world0))) = []
   \<and> lastConnected (fst (snd (checkConnectionHealth script_ok chan_a conn_a world0))) = Some 6010
   \<and> uptime (fst (snd (checkConnectionHealth script_ok chan_a conn_a world0))) = 4242
   \<and> sent (snd (snd (checkConnectionHealth script_ok chan_a conn_a world0)))
       = [(7, MetricsEvent ''a'' (make_metrics script_ok status_busy))]"
proof -
  have p: "probe script_ok = Inr status_busy"
    by (simp add: probe_def script_ok_def)
  have s: "on_save_try script_ok = Inr ()"
    by (simp add: script_ok_def)
  from successful_probe [OF p s, of chan_a conn_a world0] obtain w' where
    "checkConnectionHealth script_ok chan_a conn_a world0 =
       (Inr (), conn_a\<lparr>status := Connected, lastConnected := Some (clock_update script_ok),
                       errorMessage := [], uptime := ss_uptime status_busy,
                       updatedAt := stamp_try script_ok\<rparr>, w')"
    "sent w' = sent world0 @ publish chan_a (ident conn_a)
        (MetricsEvent (ident conn_a) (make_metrics script_ok status_busy))"
    by blast
  then show ?thesis
    using p s by (simp add: publish_def chan_a_def conn_a_def world0_def script_ok_def status_busy_def)
qed

text \<open>
  Without the hypothesis on the registry write the statement fails: the probe of
  \<open>conn_a\<close> succeeds, the write in the try block throws, and the catch block turns the
  connection to \<open>Error\<close>; no metrics are stored and the observer receives an error event.
\<close>

theorem successful_probe_counterexample:
  "probe script_unsaved = Inr status_busy
   \<and> isActive conn_a
   \<and> status (fst (snd (checkConnectionHealth script_unsaved chan_a conn_a world0))) = Error
   \<and> errorMessage (fst (snd (checkConnectionHealth script_unsaved chan_a conn_a world0)))
       = ''registry write failed''
   \<and> getMetrics (service (snd (snd (checkConnectionHealth script_unsaved chan_a conn_a world0)))) ''a''
       = None
   \<and> sent (snd (snd (checkConnectionHealth script_unsaved chan_a conn_a world0)))
       = [(7, ErrorEvent ''a'' ''registry write failed'')]"
  by (simp add: probe_def health_defs example_defs Let_def)

lemma catch_block_saved:
  assumes "on_save_catch sc = Inr ()"
  shows "catch_block sc ch e c w =
           (Inr (), c\<lparr>status := Error, errorMessage := e, updatedAt := stamp_catch sc\<rparr>,
            w\<lparr>registry := save (c\<lparr>status := Error, errorMessage := e,
                                   updatedAt := stamp_catch sc\<rparr>) (registry w),
              sent := sent w @ publish ch (ident c) (ErrorEvent (ident c) e),
              console := console w @ [''Connection '' @ name c @ '' health check failed: '' @ e]\<rparr>)"
  using assms by (simp add: catch_block_def Let_def)

lemma catch_block_unsaved:
  assumes "on_save_catch sc = Inl e2"
  shows "catch_block sc ch e c w = (Inl e2, c\<lparr>status := Error, errorMessage := e\<rparr>, w)"
  using assms by (simp add: catch_block_def Let_def)

lemma check_failure:
  assumes "probe sc = Inl e"
  shows "\<exists>w1. checkConnectionHealth sc ch c w = catch_block sc ch e c w1
          \<and> registry w1 = registry w \<and> service w1 = service w \<and> sent w1 = sent w
          \<and> console w1 = console w"
proof -
  from try_block_failure [OF assms, of ch c w] obtain w1 where
    "try_block sc ch c w = (Inl e, c, w1)" "registry w1 = registry w" "service w1 = service w"
    "sent w1 = sent w" "console w1 = console w"
    by blast
  then show ?thesis by (auto simp: checkConnectionHealth_def)
qed

lemma checkAllConnections_returns: "fst (checkAllConnections ts ch w) = Inr ()"
  by (simp add: checkAllConnections_def split: sum.splits prod.splits)

lemma failure_path_saved:
  assumes "probe sc = Inl e" and "on_save_catch sc = Inr ()"
  shows "\<exists>w'. checkConnectionHealth sc ch c w =
           (Inr (), c\<lparr>status := Error, errorMessage := e, updatedAt := stamp_catch sc\<rparr>, w')
         \<and> registry w' = save (c\<lparr>status := Error, errorMessage := e,
                                 updatedAt := stamp_catch sc\<rparr>) (registry w)
         \<and> service w' = service w
         \<and> sent w' = sent w @ publish ch (ident c) (ErrorEvent (ident c) e)
         \<and> console w' = console w @ [''Connection '' @ name c @ '' health check failed: '' @ e]"
proof -
  from check_failure [OF assms(1), of ch c w] obtain w1 where
    "checkConnectionHealth sc ch c w = catch_block sc ch e c w1"
    "registry w1 = registry w" "service w1 = service w" "sent w1 = sent w" "console w1 = console w"
    by blast
  then show ?thesis
    by (simp add: catch_block_saved [OF assms(2)])
qed

lemma failure_path_unsaved:
  assumes "probe sc = Inl e" and "on_save_catch sc = Inl e2"
  shows "\<exists>w'. checkConnectionHealth sc ch c w =
           (Inl e2, c\<lparr>status := Error, errorMessage := e\<rparr>, w')
         \<and> registry w' = registry w \<and> service w' = service w
         \<and> sent w' = sent w \<and> console w' = console w"
proof -
  from check_failure [OF assms(1), of ch c w] obtain w1 where
    "checkConnectionHealth sc ch c w = catch_block sc ch e c w1"
    "registry w1 = registry w" "service w1 = service w" "sent w1 = sent w" "console w1 = console w"
    by blast
  then show ?thesis
    by (simp add: catch_block_unsaved [OF assms(2)])
qed

text \<open>
  Claim C2 (not met by the code). The probe of the active connection \<open>a\<close> fails (the
  connection is refused) while an open observer is registered under \<open>a\<close>. The catch block
  sets \<open>status = Error\<close> and the error message on the document, but its own registry write
  throws: the health check throws in turn before the publish of lines 80 to 88, no
  error event is sent, and nothing of the failure reaches the registry. When the same
  write succeeds (\<open>failure_path_saved\<close>), or when it is the write of the try block that
  fails, the error event is published.
\<close>

theorem failed_probe_unpublished:
  "probe script_refused_unsaved = Inl ''connect ECONNREFUSED''
   \<and> isActive conn_a
   \<and> activeConnections chan_a (ident conn_a) = Some 7 \<and> readyState chan_a 7 = 1
   \<and> fst (checkConnectionHealth script_refused_unsaved chan_a conn_a world0)
       = Inl ''registry write failed''
   \<and> status (fst (snd (checkConnectionHealth script_refused_unsaved chan_a conn_a world0))) = Error
   \<and> errorMessage (fst (snd (checkConnectionHealth script_refused_unsaved chan_a conn_a world0)))
       = ''connect ECONNREFUSED''
   \<and> sent (snd (snd (checkConnectionHealth script_refused_unsaved chan_a conn_a world0))) = []
   \<and> registry (snd (snd (checkConnectionHealth script_refused_unsaved chan_a conn_a world0)))
       = registry world0"
  by (simp add: probe_def health_defs example_defs Let_def)

text \<open>
  Claim C10 (corrected). On a failed probe the health check assigns only \<open>status\<close> and
  \<open>errorMessage\<close>, and the registry write that follows stamps \<open>updatedAt\<close>, as the
  schema's \<^verbatim>\<open>timestamps\<close> option has it: \<open>lastConnected\<close>, \<open>uptime\<close>, \<open>createdAt\<close>, the id and
  every connection field keep their values. The registry receives that document (or
  stays as it was when the write fails), and the service is untouched. So a document that
  a successful health check has produced still carries that check's \<open>lastConnected\<close> and
  \<open>uptime\<close> after a failed one.
\<close>

theorem failed_probe_frame:
  assumes "probe sc = Inl e"
  shows "fst (snd (checkConnectionHealth sc ch c w)) =
           (case on_save_catch sc of
              Inl _ \<Rightarrow> c\<lparr>status := Error, errorMessage := e\<rparr>
            | Inr _ \<Rightarrow> c\<lparr>status := Error, errorMessage := e, updatedAt := stamp_catch sc\<rparr>)
       \<and> status (fst (snd (checkConnectionHealth sc ch c w))) = Error
       \<and> errorMessage (fst (snd (checkConnectionHealth sc ch c w))) = e
       \<and> lastConnected (fst (snd (checkConnectionHealth sc ch c w))) = lastConnected c
       \<and> uptime (fst (snd (checkConnectionHealth sc ch c w))) = uptime c
       \<and> createdAt (fst (snd (checkConnectionHealth sc ch c w))) = createdAt c
       \<and> fst (snd (checkConnectionHealth sc ch c w))
           \<lparr>status := status c, errorMessage := errorMessage c, updatedAt := updatedAt c\<rparr> = c
       \<and> registry (snd (snd (checkConnectionHealth sc ch c w))) =
           (case on_save_catch sc of
              Inl _ \<Rightarrow> registry w
            | Inr _ \<Rightarrow> save (c\<lparr>status := Error, errorMessage := e,
                                updatedAt := stamp_catch sc\<rparr>) (registry w))
       \<and> service (snd (snd (checkConnectionHealth sc ch c w))) = service w
       \<and> (\<forall>sc0 ss c0 w0. probe sc0 = Inr ss \<and> on_save_try sc0 = Inr ()
             \<and> c = fst (snd (checkConnectionHealth sc0 ch c0 w0)) \<longrightarrow>
             status (fst (snd (checkConnectionHealth sc ch c w))) = Error
             \<and> lastConnected (fst (snd (checkConnectionHealth sc ch c w))) = Some (clock_update sc0)
             \<and> uptime (fst (snd (checkConnectionHealth sc ch c w))) = ss_uptime ss)"
proof -
  let ?c = "fst (snd (checkConnectionHealth sc ch c w))"
  have doc: "?c = (case on_save_catch sc of
              Inl _ \<Rightarrow> c\<lparr>status := Error, errorMessage := e\<rparr>
            | Inr _ \<Rightarrow> c\<lparr>status := Error, errorMessage := e, updatedAt := stamp_catch sc\<rparr>)"
    by (cases "on_save_catch sc")
      (use failure_path_unsaved [OF assms, of _ ch c w] failure_path_saved [OF assms, of ch c w]
        in auto)
  have reg: "registry (snd (snd (checkConnectionHealth sc ch c w))) =
           (case on_save_catch sc of
              Inl _ \<Rightarrow> registry w
            | Inr _ \<Rightarrow> save (c\<lparr>status := Error, errorMessage := e,
                                updatedAt := stamp_catch sc\<rparr>) (registry w))"
    by (cases "on_save_catch sc")
      (use failure_path_unsaved [OF assms, of _ ch c w] failure_path_saved [OF assms, of ch c w]
        in auto)
  have svc: "service (snd (snd (checkConnectionHealth sc ch c w))) = service w"
    by (cases "on_save_catch sc")
      (use failure_path_unsaved [OF assms, of _ ch c w] failure_path_saved [OF assms, of ch c w]
        in auto)
  have fields: "status ?c = Error \<and> errorMessage ?c = e \<and> lastConnected ?c = lastConnected c
      \<and> uptime ?c = uptime c \<and> createdAt ?c = createdAt c
      \<and> ?c\<lparr>status := status c, errorMessage := errorMessage c, updatedAt := updatedAt c\<rparr> = c"
    unfolding doc by (cases "on_save_catch sc") simp_all
  have hist: "\<forall>sc0 ss c0 w0. probe sc0 = Inr ss \<and> on_save_try sc0 = Inr ()
             \<and> c = fst (snd (checkConnectionHealth sc0 ch c0 w0)) \<longrightarrow>
             status ?c = Error \<and> lastConnected ?c = Some (clock_update sc0)
             \<and> uptime ?c = ss_uptime ss"
  proof (intro allI impI)
    fix sc0 ss c0 w0
    assume h: "probe sc0 = Inr ss \<and> on_save_try sc0 = Inr ()
             \<and> c = fst (snd (checkConnectionHealth sc0 ch c0 w0))"
    from check_success_record [of sc0 ss ch c0 w0] h
    have "lastConnected c = Some (clock_update sc0) \<and> uptime c = ss_uptime ss"
      by simp
    with fields show "status ?c = Error \<and> lastConnected ?c = Some (clock_update sc0)
             \<and> uptime ?c = ss_uptime ss"
      by simp
  qed
  from doc fields reg svc hist show ?thesis by blast
qed

theorem failed_probe_frame_witness:
  "probe script_refused = Inl ''connect ECONNREFUSED''
   \<and> probe script_ok = Inr status_busy \<and> on_save_try script_ok = Inr ()
   \<and> status (fst (snd (checkConnectionHealth script_refused chan_a
        (fst (snd (checkConnectionHealth script_ok chan_a conn_a world0)))
        (snd (snd (checkConnectionHealth script_ok chan_a conn_a world0)))))) = Error
   \<and> lastConnected (fst (snd (checkConnectionHealth script_refused chan_a
        (fst (snd (checkConnectionHealth script_ok chan_a conn_a world0)))
        (snd (snd (checkConnectionHealth script_ok chan_a conn_a world0)))))) = Some 6010
   \<and> uptime (fst (snd (checkConnectionHealth script_refused chan_a
        (fst (snd (checkConnectionHealth script_ok chan_a conn_a world0)))
        (snd (snd (checkConnectionHealth script_ok chan_a conn_a world0)))))) = 4242"
proof -
  have p: "probe script_refused = Inl ''connect ECONNREFUSED''"
    by (simp add: probe_def script_refused_def script_ok_def)
  have q: "probe script_ok = Inr status_busy \<and> on_save_try script_ok = Inr ()"
    by (simp add: probe_def script_ok_def)
  from failed_probe_frame [OF p, of chan_a
      "fst (snd (checkConnectionHealth script_ok chan_a conn_a world0))"
      "snd (snd (checkConnectionHealth script_ok chan_a conn_a world0))"]
  have "\<forall>sc0 ss c0 w0. probe sc0 = Inr ss \<and> on_save_try sc0 = Inr ()
          \<and> fst (snd (checkConnectionHealth script_ok chan_a conn_a world0))
              = fst (snd (checkConnectionHealth sc0 chan_a c0 w0)) \<longrightarrow>
          status (fst (snd (checkConnectionHealth script_refused chan_a
            (fst (snd (checkConnectionHealth script_ok chan_a conn_a world0)))
            (snd (snd (checkConnectionHealth script_ok chan_a conn_a world0)))))) = Error
        \<and> lastConnected (fst (snd (checkConnectionHealth script_refused chan_a
            (fst (snd (checkConnectionHealth script_ok chan_a conn_a world0)))
            (snd (snd (checkConnectionHealth script_ok chan_a conn_a world0)))))) = Some (clock_update sc0)
        \<and> uptime (fst (snd (checkConnectionHealth script_refused chan_a
            (fst (snd (checkConnectionHealth script_ok chan_a conn_a world0)))
            (snd (snd (checkConnectionHealth script_ok chan_a conn_a world0)))))) = ss_uptime ss"
    by blast
  from this [rule_format, of script_ok status_busy conn_a world0] q p show ?thesis
    by (simp add: script_ok_def status_busy_def)
qed

text \<open>
  The connection \<open>a\<close>, not yet probed, is refused and the catch block's write succeeds:
  besides \<open>status\<close> and \<open>errorMessage\<close> the write has changed \<open>updatedAt\<close>, on the document
  and in the registry.
\<close>

theorem failed_probe_frame_counterexample:
  "probe script_refused = Inl ''connect ECONNREFUSED''
   \<and> updatedAt conn_a = 1000
   \<and> updatedAt (fst (snd (checkConnectionHealth script_refused chan_a conn_a world0))) = 6020
   \<and> map updatedAt (registry world0) = [1000, 1000, 1000]
   \<and> map updatedAt (registry (snd (snd (checkConnectionHealth script_refused chan_a conn_a world0))))
       = [6020, 1000, 1000]
   \<and> fst (snd (checkConnectionHealth script_refused chan_a conn_a world0))
       \<noteq> conn_a\<lparr>status := Error, errorMessage := ''connect ECONNREFUSED''\<rparr>"
  by (simp add: probe_def health_defs example_defs Let_def)

subsection \<open>Driver calls and the tick\<close>

lemma calls_since_check:
  "calls_since w (snd (snd (checkConnectionHealth sc ch c w))) =
     (ident c, NewClient) #
       (case on_construct sc of Inl _ \<Rightarrow> [] | Inr _ \<Rightarrow> (ident c, Connect) #
       (case on_connect sc of Inl _ \<Rightarrow> [] | Inr _ \<Rightarrow> (ident c, Ping) #
       (case on_ping sc of Inl _ \<Rightarrow> [] | Inr _ \<Rightarrow> (ident c, ServerStatus) #
       (case on_serverStatus sc of Inl _ \<Rightarrow> [] | Inr _ \<Rightarrow> [(ident c, Close)]))))"
  by (simp add: calls_since_def driver_check driver_try_block)

text \<open>
  Which health checks call \<^verbatim>\<open>close\<close>: those in which the constructor, \<^verbatim>\<open>connect\<close>,
  \<^verbatim>\<open>ping\<close> and \<^verbatim>\<open>serverStatus\<close> have all returned, and no others.
\<close>

lemma close_called_iff:
  "((ident c, Close) \<in> set (calls_since w (snd (snd (checkConnectionHealth sc ch c w)))))
     = (on_construct sc = Inr () \<and> on_connect sc = Inr () \<and> on_ping sc = Inr ()
        \<and> (\<exists>ss. on_serverStatus sc = Inr ss))
   \<and> (\<forall>ss. probe sc = Inr ss \<longrightarrow>
         calls_since w (snd (snd (checkConnectionHealth sc ch c w))) =
           map (Pair (ident c)) [NewClient, Connect, Ping, ServerStatus, Close])
   \<and> length (filter (\<lambda>p. snd p = Close) (calls_since w (snd (snd (checkConnectionHealth sc ch c w))))) \<le> 1"
proof (intro conjI allI impI)
  show "((ident c, Close) \<in> set (calls_since w (snd (snd (checkConnectionHealth sc ch c w)))))
     = (on_construct sc = Inr () \<and> on_connect sc = Inr () \<and> on_ping sc = Inr ()
        \<and> (\<exists>ss. on_serverStatus sc = Inr ss))"
    by (cases "on_construct sc"; cases "on_connect sc"; cases "on_ping sc";
        cases "on_serverStatus sc") (simp_all add: calls_since_check)
  show "length (filter (\<lambda>p. snd p = Close) (calls_since w (snd (snd (checkConnectionHealth sc ch c w))))) \<le> 1"
    by (simp add: calls_since_check split: sum.splits)
next
  fix ss assume "probe sc = Inr ss"
  then show "calls_since w (snd (snd (checkConnectionHealth sc ch c w))) =
           map (Pair (ident c)) [NewClient, Connect, Ping, ServerStatus, Close]"
    by (simp add: calls_since_check probe_def split: sum.splits)
qed

text \<open>
  Claim C5 (not met by the code). The client of the connection \<open>a\<close> is constructed and its
  \<^verbatim>\<open>connect\<close> is refused: the health check returns, having marked the connection as
  failed, with no \<^verbatim>\<open>close\<close> among the calls it made on the client. On the success path
  the same function closes the client (line 39) before it goes on.
\<close>

theorem client_left_open:
  "on_construct script_refused = Inr ()
   \<and> probe script_refused = Inl ''connect ECONNREFUSED''
   \<and> calls_since world0 (snd (snd (checkConnectionHealth script_refused chan_a conn_a world0)))
       = [(''a'', NewClient), (''a'', Connect)]
   \<and> (''a'', Close) \<notin> set (driver (snd (snd (checkConnectionHealth script_refused chan_a conn_a world0))))
   \<and> fst (checkConnectionHealth script_refused chan_a conn_a world0) = Inr ()
   \<and> calls_since world0 (snd (snd (checkConnectionHealth script_ok chan_a conn_a world0)))
       = [(''a'', NewClient), (''a'', Connect), (''a'', Ping), (''a'', ServerStatus), (''a'', Close)]"
  by (simp add: calls_since_def probe_def health_defs example_defs Let_def)

lemma check_returns_iff:
  "(fst (checkConnectionHealth sc ch c w) = Inr ()) =
     ((\<exists>ss. probe sc = Inr ss \<and> on_save_try sc = Inr ()) \<or> on_save_catch sc = Inr ())"
  by (auto simp: checkConnectionHealth_def try_block_def catch_block_def on_success_def probe_def
      Let_def split: sum.splits)

lemma for_connections_prefix:
  "\<exists>k. probed (snd (for_connections env ch cs w)) = probed w @ map ident (take k cs)"
proof (induction cs arbitrary: w)
  case Nil
  then show ?case by simp
next
  case (Cons c cs)
  obtain r c' w' where run: "checkConnectionHealth (env (ident c)) ch c w = (r, c', w')"
    by (cases "checkConnectionHealth (env (ident c)) ch c w") auto
  have p: "probed w' = probed w @ [ident c]"
    using probed_check [of "env (ident c)" ch c w] by (simp add: run)
  show ?case
  proof (cases r)
    case (Inl e)
    then have "probed (snd (for_connections env ch (c # cs) w)) = probed w @ map ident (take 1 (c # cs))"
      by (simp add: run p)
    then show ?thesis by blast
  next
    case (Inr u)
    from Cons.IH [of w'] obtain k where
      "probed (snd (for_connections env ch cs w')) = probed w' @ map ident (take k cs)"
      by blast
    then have "probed (snd (for_connections env ch (c # cs) w)) = probed w @ map ident (take (Suc k) (c # cs))"
      by (simp add: run Inr p)
    then show ?thesis by blast
  qed
qed

lemma for_connections_complete:
  assumes "\<forall>c \<in> set cs. (\<exists>ss. probe (env (ident c)) = Inr ss \<and> on_save_try (env (ident c)) = Inr ())
                          \<or> on_save_catch (env (ident c)) = Inr ()"
  shows "fst (for_connections env ch cs w) = Inr ()
       \<and> probed (snd (for_connections env ch cs w)) = probed w @ map ident cs"
  using assms
proof (induction cs arbitrary: w)
  case Nil
  then show ?case by simp
next
  case (Cons c cs)
  obtain r c' w' where run: "checkConnectionHealth (env (ident c)) ch c w = (r, c', w')"
    by (cases "checkConnectionHealth (env (ident c)) ch c w") auto
  have "fst (checkConnectionHealth (env (ident c)) ch c w) = Inr ()"
    using Cons.prems by (simp add: check_returns_iff)
  then have r: "r = Inr ()" by (simp add: run)
  have p: "probed w' = probed w @ [ident c]"
    using probed_check [of "env (ident c)" ch c w] by (simp add: run)
  from Cons.IH [of w'] Cons.prems show ?case
    by (simp add: run r p)
qed

lemma probed_since_append: "probed w' = probed w @ xs \<Longrightarrow> probed_since w w' = xs"
  by (simp add: probed_since_def)

lemma probed_console: "probed (w\<lparr>console := x\<rparr>) = probed w"
  by (simp add: probed_def)

lemma probed_tick:
  "probed (snd (checkAllConnections ts ch w)) =
     (case on_find ts of
        Inl _ \<Rightarrow> probed w
      | Inr _ \<Rightarrow> probed (snd (for_connections (probe_of ts) ch (filter isActive (registry w)) w)))"
proof (cases "on_find ts")
  case (Inl e)
  then show ?thesis by (simp add: checkAllConnections_def probed_console)
next
  case (Inr u)
  obtain r w' where run: "for_connections (probe_of ts) ch (filter isActive (registry w)) w = (r, w')"
    by (cases "for_connections (probe_of ts) ch (filter isActive (registry w)) w") auto
  show ?thesis
    by (cases r) (simp_all add: checkAllConnections_def Inr run probed_console)
qed

lemma tick_prefix:
  "\<exists>k. probed (snd (checkAllConnections ts ch w)) =
         probed w @ map ident (take k (filter isActive (registry w)))"
proof (cases "on_find ts")
  case (Inl e)
  then have "probed (snd (checkAllConnections ts ch w)) =
         probed w @ map ident (take 0 (filter isActive (registry w)))"
    by (simp add: probed_tick)
  then show ?thesis by blast
next
  case (Inr u)
  from for_connections_prefix [of "probe_of ts" ch "filter isActive (registry w)" w]
  obtain k where "probed (snd (for_connections (probe_of ts) ch (filter isActive (registry w)) w)) =
      probed w @ map ident (take k (filter isActive (registry w)))"
    by blast
  then have "probed (snd (checkAllConnections ts ch w)) =
         probed w @ map ident (take k (filter isActive (registry w)))"
    by (simp add: probed_tick Inr)
  then show ?thesis by blast
qed

lemma inactive_not_in_active:
  assumes "distinct (map ident reg)" "c \<in> set reg" "\<not> isActive c"
  shows "ident c \<notin> ident ` set (filter isActive reg)"
proof
  assume "ident c \<in> ident ` set (filter isActive reg)"
  then obtain d where d: "d \<in> set reg" "isActive d" "ident d = ident c" by auto
  with assms(1,2) have "d = c"
    by (meson distinct_map inj_onD)
  with d assms(3) show False by simp
qed

text \<open>
  Claim C4 (corrected). The connections a tick probes are an initial part of the active
  records of the registry, in registry order, so (ids being unique) a record with
  \<open>isActive = False\<close> is never probed. When the registry read succeeds and every health
  check of the tick returns (its probe and first write succeed, or the write of its catch
  block does), the tick probes exactly the active records, each once. When the registry
  read throws, the tick probes nothing.
\<close>

theorem tick_probes_active:
  "(\<exists>k. probed_since w (snd (checkAllConnections ts ch w)) =
          map ident (take k (filter isActive (registry w))))
   \<and> (distinct (map ident (registry w)) \<and> c \<in> set (registry w) \<and> \<not> isActive c \<longrightarrow>
        ident c \<notin> set (probed_since w (snd (checkAllConnections ts ch w))))
   \<and> (on_find ts = Inr ()
        \<and> (\<forall>a \<in> set (registry w). isActive a \<longrightarrow>
              (\<exists>ss. probe (probe_of ts (ident a)) = Inr ss \<and> on_save_try (probe_of ts (ident a)) = Inr ())
              \<or> on_save_catch (probe_of ts (ident a)) = Inr ()) \<longrightarrow>
        probed_since w (snd (checkAllConnections ts ch w)) = map ident (filter isActive (registry w)))
   \<and> (\<forall>e. on_find ts = Inl e \<longrightarrow> probed_since w (snd (checkAllConnections ts ch w)) = [])"
proof (intro conjI impI allI)
  from tick_prefix [of ts ch w] obtain k where
    k: "probed (snd (checkAllConnections ts ch w)) =
          probed w @ map ident (take k (filter isActive (registry w)))"
    by blast
  then have ps: "probed_since w (snd (checkAllConnections ts ch w)) =
          map ident (take k (filter isActive (registry w)))"
    by (rule probed_since_append)
  then show "\<exists>k. probed_since w (snd (checkAllConnections ts ch w)) =
          map ident (take k (filter isActive (registry w)))"
    by blast
  assume h: "distinct (map ident (registry w)) \<and> c \<in> set (registry w) \<and> \<not> isActive c"
  then have "ident c \<notin> ident ` set (filter isActive (registry w))"
    using inactive_not_in_active [of "registry w" c] by blast
  moreover have "set (map ident (take k (filter isActive (registry w))))
      \<subseteq> ident ` set (filter isActive (registry w))"
    using set_take_subset [of k "filter isActive (registry w)"] by auto
  ultimately show "ident c \<notin> set (probed_since w (snd (checkAllConnections ts ch w)))"
    unfolding ps by blast
next
  assume h: "on_find ts = Inr ()
        \<and> (\<forall>a \<in> set (registry w). isActive a \<longrightarrow>
              (\<exists>ss. probe (probe_of ts (ident a)) = Inr ss \<and> on_save_try (probe_of ts (ident a)) = Inr ())
              \<or> on_save_catch (probe_of ts (ident a)) = Inr ())"
  then have "\<forall>a \<in> set (filter isActive (registry w)).
       (\<exists>ss. probe (probe_of ts (ident a)) = Inr ss \<and> on_save_try (probe_of ts (ident a)) = Inr ())
       \<or> on_save_catch (probe_of ts (ident a)) = Inr ()"
    by simp
  from for_connections_complete [OF this, of ch w] h
  have "probed (snd (checkAllConnections ts ch w)) =
          probed w @ map ident (filter isActive (registry w))"
    by (simp add: probed_tick)
  then show "probed_since w (snd (checkAllConnections ts ch w)) = map ident (filter isActive (registry w))"
    by (rule probed_since_append)
next
  fix e assume "on_find ts = Inl e"
  then have "probed (snd (checkAllConnections ts ch w)) = probed w @ []"
    by (simp add: probed_tick)
  then show "probed_since w (snd (checkAllConnections ts ch w)) = []"
    by (rule probed_since_append)
qed

lemmas tick_defs = checkAllConnections_def probed_def probed_since_def

theorem tick_probes_active_witness:
  "on_find tick_ok = Inr ()
   \<and> distinct (map ident (registry world0)) \<and> conn_c \<in> set (registry world0) \<and> \<not> isActive conn_c
   \<and> probed_since world0 (snd (checkAllConnections tick_ok chan_a world0)) = [''a'', ''b'']
   \<and> ident conn_c \<notin> set (probed_since world0 (snd (checkAllConnections tick_ok chan_a world0)))"
proof -
  have f: "on_find tick_ok = Inr ()" by (simp add: tick_ok_def)
  have d: "distinct (map ident (registry world0)) \<and> conn_c \<in> set (registry world0) \<and> \<not> isActive conn_c"
    by (simp add: world0_def conn_a_def conn_b_def conn_c_def)
  have s: "\<forall>a \<in> set (registry world0). isActive a \<longrightarrow>
              (\<exists>ss. probe (probe_of tick_ok (ident a)) = Inr ss \<and> on_save_try (probe_of tick_ok (ident a)) = Inr ())
              \<or> on_save_catch (probe_of tick_ok (ident a)) = Inr ()"
    by (simp add: tick_ok_def script_ok_def)
  have r: "map ident (filter isActive (registry world0)) = [''a'', ''b'']"
    by (simp add: world0_def conn_a_def conn_b_def conn_c_def)
  from tick_probes_active [of world0 tick_ok chan_a conn_c] f d s r show ?thesis
    by (simp add: conn_a_def conn_c_def)
qed

text \<open>
  The registry holds the active record \<open>conn_a\<close>, the registry read throws, and the tick
  ends with its log line and no probe at all.
\<close>

theorem tick_probes_active_counterexample:
  "conn_a \<in> set (registry world0) \<and> isActive conn_a
   \<and> probed (snd (checkAllConnections tick_no_registry chan_a world0)) = []
   \<and> driver (snd (checkAllConnections tick_no_registry chan_a world0)) = []
   \<and> console (snd (checkAllConnections tick_no_registry chan_a world0))
       = [''Error checking connections: registry unreachable'']"
  by (simp add: tick_defs tick_no_registry_def world0_def conn_a_def)

text \<open>
  Claim C6 (not met by the code). The registry holds the active records \<open>a\<close> and \<open>b\<close>.
  The probe of \<open>a\<close> fails and the registry write of its catch block throws: the error
  leaves the health check, ends the loop and is logged by \<^verbatim>\<open>checkAllConnections\<close>, and
  \<open>b\<close> is not probed in that tick.
\<close>

theorem save_failure_ends_tick:
  "map ident (filter isActive (registry world0)) = [''a'', ''b'']
   \<and> on_save_catch (probe_of tick_first_unsaved ''a'') = Inl ''registry write failed''
   \<and> fst (checkAllConnections tick_first_unsaved chan_a world0) = Inr ()
   \<and> probed (snd (checkAllConnections tick_first_unsaved chan_a world0)) = [''a'']
   \<and> driver (snd (checkAllConnections tick_first_unsaved chan_a world0))
       = [(''a'', NewClient), (''a'', Connect)]
   \<and> console (snd (checkAllConnections tick_first_unsaved chan_a world0))
       = [''Error checking connections: registry write failed'']"
  by (simp add: tick_defs health_defs example_defs Let_def)

subsection \<open>The fan-out channel\<close>

text \<open>
  Registering socket \<open>b\<close> under an id already bound to socket \<open>a\<close> leaves the same table
  of observers, and the same result of the next publish, as registering \<open>b\<close> alone.
\<close>

lemma register_overwrites:
  "activeConnections (subscribe (subscribe ch cid a) cid b) = activeConnections (subscribe ch cid b)
   \<and> readyState (subscribe (subscribe ch cid a) cid b) = readyState (subscribe ch cid b)
   \<and> publish (subscribe (subscribe ch cid a) cid b) cid' ev = publish (subscribe ch cid b) cid' ev
   \<and> publish (subscribe (subscribe ch cid a) cid b) cid ev
       = (if readyState ch b = 1 then [(b, ev)] else [])
   \<and> set (publish (subscribe (subscribe ch cid a) cid b) cid ev) \<subseteq> {(b, ev)}
   \<and> (a \<noteq> b \<longrightarrow> a \<notin> fst ` set (publish (subscribe (subscribe ch cid a) cid b) cid ev))"
  by (auto simp: subscribe_def on_message_def publish_def split: option.splits)

lemma register_tags:
  "connectionId (subscribe (subscribe ch cid a) cid b) a = Some cid
   \<and> connectionId (subscribe ch cid b) a = (if a = b then Some cid else connectionId ch a)"
  by (simp add: subscribe_def on_message_def)

lemma stale_close_unsubscribes:
  "a \<noteq> b \<Longrightarrow> cid \<noteq> [] \<Longrightarrow>
     activeConnections (ws_on_close (subscribe (subscribe ch cid a) cid b) a) cid = None"
  by (simp add: subscribe_def on_message_def ws_on_close_def)

text \<open>
  Claim C8 (not met by the code). Socket 7 registers under \<open>a\<close>, then socket 8 registers
  under \<open>a\<close>; both are open. The next publish under \<open>a\<close> reaches socket 8 alone, as it does
  when socket 8 has registered alone. But socket 7 keeps its \<^verbatim>\<open>connectionId\<close> tag, and
  when it closes, the close handler deletes the entry of \<open>a\<close>, which is socket 8's: from
  then on a publish under \<open>a\<close> reaches nobody. When socket 8 has registered alone, the
  close of socket 7 changes nothing and the publish reaches socket 8.
\<close>

theorem stale_close_silences_successor:
  "publish (subscribe (subscribe chan_open ''a'' 7) ''a'' 8) ''a'' (ErrorEvent ''a'' ''down'')
     = [(8, ErrorEvent ''a'' ''down'')]
   \<and> publish (subscribe chan_open ''a'' 8) ''a'' (ErrorEvent ''a'' ''down'')
       = [(8, ErrorEvent ''a'' ''down'')]
   \<and> connectionId (subscribe (subscribe chan_open ''a'' 7) ''a'' 8) 7 = Some ''a''
   \<and> connectionId (subscribe chan_open ''a'' 8) 7 = None
   \<and> readyState (ws_on_close (subscribe (subscribe chan_open ''a'' 7) ''a'' 8) 7) 8 = 1
   \<and> activeConnections (ws_on_close (subscribe (subscribe chan_open ''a'' 7) ''a'' 8) 7) ''a'' = None
   \<and> publish (ws_on_close (subscribe (subscribe chan_open ''a'' 7) ''a'' 8) 7) ''a''
        (ErrorEvent ''a'' ''down'') = []
   \<and> publish (ws_on_close (subscribe chan_open ''a'' 8) 7) ''a'' (ErrorEvent ''a'' ''down'')
       = [(8, ErrorEvent ''a'' ''down'')]"
  by (simp add: subscribe_def on_message_def ws_on_close_def publish_def chan_open_def)

subsection \<open>The delete route\<close>

lemma find_None_filter: "find P xs = None \<Longrightarrow> filter (\<lambda>x. \<not> P x) xs = xs"
  by (induction xs) (auto split: if_splits)

text \<open>
  Claim C9 (corrected). The delete route removes the record from the registry and nothing
  else: the service (the metrics slot of the id included) and the channel (the observer
  registered under the id included) are left as they were. When
  \<^verbatim>\<open>findByIdAndDelete\<close> throws, the whole state is unchanged.
\<close>

theorem delete_keeps_monitor_state:
  "service (app_world (snd (delete_route od cid s))) = service (app_world s)
   \<and> getMetrics (service (app_world (snd (delete_route od cid s)))) cid
       = getMetrics (service (app_world s)) cid
   \<and> app_channel (snd (delete_route od cid s)) = app_channel s
   \<and> activeConnections (app_channel (snd (delete_route od cid s))) cid
       = activeConnections (app_channel s) cid
   \<and> (od = Inr () \<longrightarrow>
        registry (app_world (snd (delete_route od cid s)))
          = filter (\<lambda>r. ident r \<noteq> cid) (registry (app_world s))
        \<and> cid \<notin> ident ` set (registry (app_world (snd (delete_route od cid s)))))
   \<and> (\<forall>e. od = Inl e \<longrightarrow> snd (delete_route od cid s) = s)"
  by (auto simp: delete_route_def find_None_filter find_None_iff split: sum.splits option.splits)

theorem delete_keeps_monitor_state_witness:
  "fst (delete_route (Inr ()) ''a'' app0) = (200, ''Connection deleted successfully'')
   \<and> map ident (registry (app_world (snd (delete_route (Inr ()) ''a'' app0)))) = [''b'', ''c'']
   \<and> getMetrics (service (app_world (snd (delete_route (Inr ()) ''a'' app0)))) ''a''
       = getMetrics (service (app_world app0)) ''a''"
  using delete_keeps_monitor_state [of "Inr ()" "''a''" app0]
  by (simp add: delete_route_def app0_def world0_def conn_a_def conn_b_def conn_c_def)

text \<open>
  After \<open>a\<close> has been deleted its metrics are still stored and its observer is still
  registered: a publish under \<open>a\<close> would still reach socket 7.
\<close>

theorem delete_keeps_monitor_state_counterexample:
  "fst (delete_route (Inr ()) ''a'' app0) = (200, ''Connection deleted successfully'')
   \<and> ''a'' \<notin> ident ` set (registry (app_world (snd (delete_route (Inr ()) ''a'' app0))))
   \<and> getMetrics (service (app_world (snd (delete_route (Inr ()) ''a'' app0)))) ''a''
       = Some metrics_slow
   \<and> activeConnections (app_channel (snd (delete_route (Inr ()) ''a'' app0))) ''a'' = Some 7
   \<and> publish (app_channel (snd (delete_route (Inr ()) ''a'' app0))) ''a'' (ErrorEvent ''a'' ''down'')
       = [(7, ErrorEvent ''a'' ''down'')]"
  by (simp add: delete_route_def app0_def world0_def conn_a_def conn_b_def conn_c_def chan_a_def
      getMetrics_def storeMetrics_def publish_def)

end
